theory Spec2Isabelle
  imports Complex_Main
begin

section \<open>Text\<close>

text \<open>
  Python \<open>str\<close> values are modelled as \<^typ>\<open>string\<close>: a list of characters, one
  \<^typ>\<open>char\<close> per code point, restricted to the code points below 256.
  \<open>len\<close> is \<^const>\<open>length\<close> and the slice \<open>s[:n]\<close> is \<^term>\<open>take n s\<close>.
\<close>

definition is_space :: "char \<Rightarrow> bool" where
  \<comment> \<open>\<open>str.isspace\<close> on the code points below 256\<close>
  "is_space c =
     (let n = of_char c :: nat
      in (9 \<le> n \<and> n \<le> 13) \<or> (28 \<le> n \<and> n \<le> 32) \<or> n = 133 \<or> n = 160)"

definition strip :: "string \<Rightarrow> string" where
  \<comment> \<open>\<open>s.strip()\<close>: leading and trailing whitespace removed\<close>
  "strip s = rev (dropWhile is_space (rev (dropWhile is_space s)))"

fun str_nat :: "nat \<Rightarrow> string" where
  "str_nat n =
     (if n < 10 then [char_of (48 + n)]
      else str_nat (n div 10) @ [char_of (48 + n mod 10)])"

declare str_nat.simps [simp del]

definition str_int :: "int \<Rightarrow> string" where
  \<comment> \<open>\<open>str(i)\<close> for a Python \<open>int\<close>\<close>
  "str_int i = (if i < 0 then CHR ''-'' # str_nat (nat (- i)) else str_nat (nat i))"

subsection \<open>Fallback producers (\<open>task2/app.py\<close>, lines 71 to 78)\<close>

definition fallback_user_response :: "int \<Rightarrow> string \<Rightarrow> string" where
  "fallback_user_response rating review =
     ''Thanks for your review! We appreciate your feedback.''"

definition fallback_summary :: "string \<Rightarrow> string" where
  "fallback_summary review =
     take 160 review @ (if length review > 160 then ''...'' else '''')"

definition fallback_actions :: "string \<Rightarrow> int \<Rightarrow> string" where
  "fallback_actions review rating =
     ''- Thank the customer'' @ [CHR 0x0A] @ ''- Investigate the issue'' @ [CHR 0x0A]
       @ ''- Improve service based on feedback''"

subsection \<open>Prompt builders (lines 81 to 88)\<close>

definition user_reply_prompt :: "int \<Rightarrow> string \<Rightarrow> string" where
  "user_reply_prompt rating review =
     ''Write a brief friendly response a restaurant would send to a customer who left this review (one short paragraph):''
       @ [CHR 0x0A, CHR 0x0A] @ ''Rating: '' @ str_int rating @ [CHR 0x0A]
       @ ''Review: '' @ [CHR 0x22] @ review @ [CHR 0x22]"

definition summary_prompt :: "string \<Rightarrow> string" where
  "summary_prompt review =
     ''Summarize the following review in one short sentence:''
       @ [CHR 0x0A, CHR 0x0A] @ [CHR 0x22] @ review @ [CHR 0x22]"

definition actions_prompt :: "string \<Rightarrow> int \<Rightarrow> string" where
  "actions_prompt review rating =
     ''Suggest 3 concise, actionable recommendations the restaurant owner should do based on this review. Provide bullet points only.''
       @ [CHR 0x0A, CHR 0x0A] @ ''Rating: '' @ str_int rating @ [CHR 0x0A]
       @ ''Review: '' @ [CHR 0x22] @ review @ [CHR 0x22]"

section \<open>The enrichment client\<close>

text \<open>
  The process environment holds the two credentials; \<open>os.getenv\<close> gives \<open>None\<close> for a
  variable that is not set.
\<close>

record env =
  openai_api_key :: "string option"
  openrouter_api_key :: "string option"

definition truthy :: "string option \<Rightarrow> bool" where
  \<comment> \<open>Python truth of \<open>None\<close> or a \<open>str\<close>: the empty string is false\<close>
  "truthy k = (case k of None \<Rightarrow> False | Some s \<Rightarrow> s \<noteq> [])"

definition py_or :: "string option \<Rightarrow> string option \<Rightarrow> string option" where
  \<comment> \<open>\<open>a or b\<close>\<close>
  "py_or a b = (if truthy a then a else b)"

text \<open>
  A decoded JSON value. The payload of a number is its literal text; the client never
  reads it.
\<close>

datatype json =
    JNull
  | JBool bool
  | JNum string
  | JStr string
  | JArr "json list"
  | JObj "(string \<times> json) list"

text \<open>
  The outcome of \<open>requests.post\<close>: the call raises (connection error, timeout), or
  a response arrives with a status code and a body; \<open>None\<close> is a body on which
  \<open>r.json()\<close> raises.
\<close>

datatype http_result =
    Raised
  | Response nat "json option"

record request =
  url :: string
  bearer :: string
  model_name :: string
  prompt :: string
  timeout :: nat

type_synonym network = "request \<Rightarrow> http_result"

definition subscript_key :: "json \<Rightarrow> string \<Rightarrow> json option" where
  \<comment> \<open>\<open>j[k]\<close> for a string \<open>k\<close>; \<open>None\<close> is KeyError or TypeError. A repeated key of
      an object keeps its last value.\<close>
  "subscript_key j k = (case j of JObj kvs \<Rightarrow> map_of (rev kvs) k | _ \<Rightarrow> None)"

definition subscript_0 :: "json \<Rightarrow> json option" where
  \<comment> \<open>\<open>j[0]\<close>; \<open>None\<close> is IndexError, KeyError or TypeError\<close>
  "subscript_0 j =
     (case j of
        JArr (x # _) \<Rightarrow> Some x
      | JStr (c # _) \<Rightarrow> Some (JStr [c])
      | _ \<Rightarrow> None)"

definition strip_method :: "json \<Rightarrow> string option" where
  \<comment> \<open>\<open>j.strip()\<close>; \<open>None\<close> is AttributeError\<close>
  "strip_method j = (case j of JStr s \<Rightarrow> Some (strip s) | _ \<Rightarrow> None)"

definition raise_for_status :: "nat \<Rightarrow> bool" where
  \<comment> \<open>\<open>r.raise_for_status()\<close> raises on the status codes 400 to 599\<close>
  "raise_for_status status = (400 \<le> status \<and> status < 600)"

definition content_of :: "json \<Rightarrow> string option" where
  \<comment> \<open>\<open>j["choices"][0]["message"]["content"].strip()\<close>; \<open>None\<close> is any exception\<close>
  "content_of j =
     (case subscript_key j ''choices'' of
        None \<Rightarrow> None
      | Some cs \<Rightarrow>
          (case subscript_0 cs of
             None \<Rightarrow> None
           | Some c \<Rightarrow>
               (case subscript_key c ''message'' of
                  None \<Rightarrow> None
                | Some m \<Rightarrow>
                    (case subscript_key m ''content'' of
                       None \<Rightarrow> None
                     | Some t \<Rightarrow> strip_method t))))"

definition attempt :: "http_result \<Rightarrow> string option" where
  \<comment> \<open>the body of one \<open>try\<close> block (lines 52 to 55, 62 to 65); \<open>None\<close> is any exception\<close>
  "attempt r =
     (case r of
        Raised \<Rightarrow> None
      | Response status body \<Rightarrow>
          if raise_for_status status then None
          else (case body of None \<Rightarrow> None | Some j \<Rightarrow> content_of j))"

definition openai_url :: string where
  "openai_url = ''https://api.openai.com/v1/chat/completions''"

definition or_url :: string where
  "or_url = ''https://openrouter.ai/v1/chat/completions''"

definition mk_request :: "string \<Rightarrow> string \<Rightarrow> string \<Rightarrow> request" where
  "mk_request u key p =
     \<lparr>url = u, bearer = key, model_name = ''gpt-3.5-turbo'', prompt = p, timeout = 15\<rparr>"

text \<open>
  \<open>call_llm_text\<close> (lines 34 to 68) returns the text or \<open>None\<close>, together with the
  requests it sent, in order.
\<close>

definition call_llm_text :: "env \<Rightarrow> network \<Rightarrow> string \<Rightarrow> string option \<times> request list" where
  "call_llm_text e net p =
     (case py_or (openai_api_key e) (openrouter_api_key e) of
        None \<Rightarrow> (None, [])
      | Some api_key \<Rightarrow>
          if api_key = [] then (None, [])
          else
            (let r1 = mk_request openai_url api_key p
             in case attempt (net r1) of
                  Some t \<Rightarrow> (Some t, [r1])
                | None \<Rightarrow>
                    if truthy (openrouter_api_key e) then
                      (let r2 = mk_request or_url api_key p
                       in (attempt (net r2), [r1, r2]))
                    else (None, [r1])))"

section \<open>The store\<close>

subsection \<open>Tables\<close>

text \<open>
  A pandas \<open>DataFrame\<close> is its column labels and its rows of cells. A cell is a missing
  value, an integer or a string. Floating-point and boolean cells are outside the model:
  where pandas would produce one, the model answers \<open>Unmodelled\<close> and makes no
  statement.
\<close>

datatype cell = NaN | IntV int | StrV string

record dataframe =
  columns :: "string list"
  rows :: "cell list list"

datatype error =
    EmptyDataError
  | ParserError
  | KeyError
  | AttributeError
  | ReError
  | FileNotFoundError
  | Unmodelled

definition cell_at :: "cell list \<Rightarrow> nat \<Rightarrow> cell" where
  "cell_at r j = (if j < length r then r ! j else NaN)"

definition column_cells :: "dataframe \<Rightarrow> nat \<Rightarrow> cell list" where
  "column_cells df j = map (\<lambda>r. cell_at r j) (rows df)"

definition schema :: "string list" where
  "schema = [''timestamp'', ''rating'', ''review'', ''ai_response'', ''summary'', ''actions'']"

definition empty_table :: dataframe where
  \<comment> \<open>\<open>pd.DataFrame(columns=[...])\<close>\<close>
  "empty_table = \<lparr>columns = schema, rows = []\<rparr>"

subsection \<open>Writing: \<open>DataFrame.to_csv(index=False)\<close>\<close>

fun join :: "'a list \<Rightarrow> 'a list list \<Rightarrow> 'a list" where
  "join sep [] = []"
| "join sep [x] = x"
| "join sep (x # y # ys) = x @ sep @ join sep (y # ys)"

definition render_cell :: "cell \<Rightarrow> string" where
  "render_cell c = (case c of NaN \<Rightarrow> [] | IntV i \<Rightarrow> str_int i | StrV s \<Rightarrow> s)"

text \<open>
  The csv writer of Python quotes a field that holds the delimiter, the quote character
  or a character of the line terminator, which is the newline here. Whether a carriage
  return also makes it quote the field depends on the version of Python, so the writer
  takes that as a parameter.
\<close>

datatype csv_writer = QuotesCR | BareCR

definition special :: "csv_writer \<Rightarrow> char \<Rightarrow> bool" where
  \<comment> \<open>the characters that make the csv writer quote a field (\<open>QUOTE_MINIMAL\<close>)\<close>
  "special wr c =
     (c = CHR '','' \<or> c = CHR 0x22 \<or> c = CHR 0x0A \<or> (wr = QuotesCR \<and> c = CHR 0x0D))"

definition quote_field :: "csv_writer \<Rightarrow> string \<Rightarrow> string" where
  "quote_field wr f =
     (if list_ex (special wr) f
      then CHR 0x22 # concat (map (\<lambda>c. if c = CHR 0x22 then [c, c] else [c]) f) @ [CHR 0x22]
      else f)"

definition write_row :: "csv_writer \<Rightarrow> string list \<Rightarrow> string" where
  \<comment> \<open>one record and the line terminator; a record of a single empty field is quoted\<close>
  "write_row wr fs =
     (if fs = [[]] then [CHR 0x22, CHR 0x22] else join '','' (map (quote_field wr) fs)) @ [CHR 0x0A]"

definition to_csv :: "csv_writer \<Rightarrow> dataframe \<Rightarrow> string" where
  "to_csv wr df = concat (map (write_row wr) (columns df # map (map render_cell) (rows df)))"

subsection \<open>Reading: the tokenizer of \<open>pd.read_csv\<close>\<close>

text \<open>
  \<open>load_data\<close> calls \<open>pd.read_csv\<close> with its defaults: fields are separated by
  commas, a field may be quoted, a quote inside a quoted field is doubled, and blank
  lines are skipped. The reader is a library, not code of the program; the model follows
  its tokenizer state by state, one character per step.
\<close>

datatype lex_state =
    START_RECORD
  | WHITESPACE_LINE
  | START_FIELD
  | IN_FIELD
  | IN_QUOTED_FIELD
  | QUOTE_IN_QUOTED_FIELD

record lexer =
  st :: lex_state
  fld :: string
  rec :: "string list"
  done_lines :: "string list list"

definition push_char :: "char \<Rightarrow> lexer \<Rightarrow> lexer" where
  "push_char c l = l\<lparr>fld := fld l @ [c]\<rparr>"

definition end_field :: "lexer \<Rightarrow> lexer" where
  "end_field l = l\<lparr>rec := rec l @ [fld l], fld := []\<rparr>"

definition end_line :: "lexer \<Rightarrow> lexer" where
  "end_line l = l\<lparr>done_lines := done_lines l @ [rec l], rec := [], st := START_RECORD\<rparr>"

definition is_blank :: "char \<Rightarrow> bool" where
  "is_blank c = (c = CHR '' '' \<or> c = CHR 0x09)"

definition start_field :: "lexer \<Rightarrow> char \<Rightarrow> lexer" where
  "start_field l c =
     (if c = CHR 0x0A then end_line (end_field l)
      else if c = CHR 0x22 then l\<lparr>st := IN_QUOTED_FIELD\<rparr>
      else if c = CHR '','' then (end_field l)\<lparr>st := START_FIELD\<rparr>
      else (push_char c l)\<lparr>st := IN_FIELD\<rparr>)"

definition in_field :: "lexer \<Rightarrow> char \<Rightarrow> lexer" where
  "in_field l c =
     (if c = CHR 0x0A then end_line (end_field l)
      else if c = CHR '','' then (end_field l)\<lparr>st := START_FIELD\<rparr>
      else push_char c l)"

definition step :: "lexer \<Rightarrow> char \<Rightarrow> lexer" where
  "step l c =
     (case st l of
        START_RECORD \<Rightarrow>
          if c = CHR 0x0A then l
          else if is_blank c then (push_char c l)\<lparr>st := WHITESPACE_LINE\<rparr>
          else start_field l c
      | WHITESPACE_LINE \<Rightarrow>
          if c = CHR 0x0A then l\<lparr>fld := [], st := START_RECORD\<rparr>
          else if is_blank c then push_char c l
          else in_field (l\<lparr>st := IN_FIELD\<rparr>) c
      | START_FIELD \<Rightarrow> start_field l c
      | IN_FIELD \<Rightarrow> in_field l c
      | IN_QUOTED_FIELD \<Rightarrow>
          if c = CHR 0x22 then l\<lparr>st := QUOTE_IN_QUOTED_FIELD\<rparr> else push_char c l
      | QUOTE_IN_QUOTED_FIELD \<Rightarrow>
          if c = CHR 0x22 then (push_char c l)\<lparr>st := IN_QUOTED_FIELD\<rparr>
          else if c = CHR '','' then (end_field l)\<lparr>st := START_FIELD\<rparr>
          else if c = CHR 0x0A then end_line (end_field l)
          else (push_char c l)\<lparr>st := IN_FIELD\<rparr>)"

definition handle_eof :: "lexer \<Rightarrow> error + string list list" where
  "handle_eof l =
     (case st l of
        START_RECORD \<Rightarrow> Inr (done_lines l)
      | WHITESPACE_LINE \<Rightarrow> Inr (done_lines l)
      | IN_QUOTED_FIELD \<Rightarrow> Inl ParserError
      | _ \<Rightarrow> Inr (done_lines (end_line (end_field l))))"

definition lexer0 :: lexer where
  "lexer0 = \<lparr>st = START_RECORD, fld = [], rec = [], done_lines = []\<rparr>"

definition tokenize :: "string \<Rightarrow> error + string list list" where
  \<comment> \<open>carriage returns are outside the model\<close>
  "tokenize s =
     (if CHR 0x0D \<in> set s then Inl Unmodelled else handle_eof (foldl step lexer0 s))"

subsection \<open>Reading: missing values and column types\<close>

definition na_values :: "string list" where
  \<comment> \<open>the texts \<open>read_csv\<close> reads as a missing value\<close>
  "na_values =
     ['''', ''#N/A'', ''#N/A N/A'', ''#NA'', ''-1.#IND'', ''-1.#QNAN'', ''-NaN'', ''-nan'',
      ''1.#IND'', ''1.#QNAN'', ''<NA>'', ''N/A'', ''NA'', ''NULL'', ''NaN'', ''None'',
      ''n/a'', ''nan'', ''null'']"

definition is_na :: "string \<Rightarrow> bool" where
  "is_na t = (t \<in> set na_values)"

definition is_digit :: "char \<Rightarrow> bool" where
  "is_digit c = (48 \<le> (of_char c :: nat) \<and> (of_char c :: nat) \<le> 57)"

definition ascii_space :: "char \<Rightarrow> bool" where
  "ascii_space c =
     ((of_char c :: nat) = 32 \<or> (9 \<le> (of_char c :: nat) \<and> (of_char c :: nat) \<le> 13))"

definition nat_of_digits :: "string \<Rightarrow> nat" where
  "nat_of_digits ds = foldl (\<lambda>n c. 10 * n + (of_char c - 48)) 0 ds"

definition parse_int64 :: "string \<Rightarrow> int option" where
  \<comment> \<open>optional blanks, an optional sign, digits, optional blanks; within 64 bits\<close>
  "parse_int64 s =
     (let t = dropWhile ascii_space s;
          neg = (t \<noteq> [] \<and> hd t = CHR ''-'');
          t1 = (if t \<noteq> [] \<and> (hd t = CHR ''-'' \<or> hd t = CHR ''+'') then tl t else t);
          ds = takeWhile is_digit t1;
          v = (if neg then - int (nat_of_digits ds) else int (nat_of_digits ds))
      in if ds = [] \<or> dropWhile ascii_space (dropWhile is_digit t1) \<noteq> [] then None
         else if - (2 ^ 63) \<le> v \<and> v < 2 ^ 63 then Some v
         else None)"

definition lower_ascii :: "char \<Rightarrow> char" where
  "lower_ascii c =
     (if 65 \<le> (of_char c :: nat) \<and> (of_char c :: nat) \<le> 90
      then char_of ((of_char c :: nat) + 32)
      else c)"

definition float_syntax :: "string \<Rightarrow> bool" where
  \<comment> \<open>the texts the float converter reads to their end: blanks, a sign, digits with an
      optional point (a digit at least), an optional exponent with its digits, blanks\<close>
  "float_syntax s =
     (let t = dropWhile ascii_space s;
          t1 = (if t \<noteq> [] \<and> (hd t = CHR ''-'' \<or> hd t = CHR ''+'') then tl t else t);
          ip = takeWhile is_digit t1;
          r1 = dropWhile is_digit t1;
          point = (r1 \<noteq> [] \<and> hd r1 = CHR ''.'');
          fp = (if point then takeWhile is_digit (tl r1) else []);
          r2 = (if point then dropWhile is_digit (tl r1) else r1);
          ex = (r2 \<noteq> [] \<and> (hd r2 = CHR ''e'' \<or> hd r2 = CHR ''E''));
          x = (if ex \<and> tl r2 \<noteq> [] \<and> (hd (tl r2) = CHR ''-'' \<or> hd (tl r2) = CHR ''+'')
               then tl (tl r2) else tl r2);
          r3 = (if ex \<and> takeWhile is_digit x \<noteq> [] then dropWhile is_digit x else r2)
      in (ip \<noteq> [] \<or> fp \<noteq> []) \<and> dropWhile ascii_space r3 = [])"

definition float_text :: "string \<Rightarrow> bool" where
  \<comment> \<open>the texts that can be read as a float: the syntax above (the converter still
      refuses a number too large for the format) and the names of the infinities\<close>
  "float_text t =
     (float_syntax t
      \<or> map lower_ascii t
           \<in> set [''inf'', ''+inf'', ''-inf'', ''infinity'', ''+infinity'', ''-infinity''])"

definition is_bool_word :: "string \<Rightarrow> bool" where
  \<comment> \<open>the texts read as a boolean, in any case\<close>
  "is_bool_word t = (map lower_ascii t \<in> set [''true'', ''false''])"

datatype col_kind = AllNaN | Ints | Strs

definition infer_kind :: "string list \<Rightarrow> error + col_kind" where
  \<comment> \<open>the type \<open>read_csv\<close> gives a column, from all of its texts\<close>
  "infer_kind texts =
     (let present = filter (\<lambda>t. \<not> is_na t) texts
      in if present = [] then Inr AllNaN
         else if list_all (\<lambda>t. parse_int64 t \<noteq> None) present then
           (if length present = length texts then Inr Ints else Inl Unmodelled)
         else if list_all float_text present then Inl Unmodelled
         else if list_all is_bool_word present then Inl Unmodelled
         else Inr Strs)"

definition convert :: "col_kind \<Rightarrow> string \<Rightarrow> cell" where
  "convert k t =
     (case k of
        AllNaN \<Rightarrow> NaN
      | Ints \<Rightarrow> (case parse_int64 t of Some i \<Rightarrow> IntV i | None \<Rightarrow> NaN)
      | Strs \<Rightarrow> if is_na t then NaN else StrV t)"

fun collect :: "('e + 'a) list \<Rightarrow> 'e + 'a list" where
  \<comment> \<open>the kinds of all columns, or the first refusal\<close>
  "collect [] = Inr []"
| "collect (x # xs) =
     (case x of Inl e \<Rightarrow> Inl e | Inr k \<Rightarrow> map_sum id ((#) k) (collect xs))"

text \<open>
  The first record is the header. A record with fewer fields than the header is
  completed; one with more fields is an error, except the first record of data, where
  the extra fields become an index (outside the model, like empty or repeated labels).
\<close>

definition pad_to :: "nat \<Rightarrow> string list \<Rightarrow> string list" where
  \<comment> \<open>a short record is completed with empty fields\<close>
  "pad_to n r = r @ replicate (n - length r) []"

definition build_frame :: "string list list \<Rightarrow> error + dataframe" where
  "build_frame recs =
     (case recs of
        [] \<Rightarrow> Inl EmptyDataError
      | header # data \<Rightarrow>
          (let n = length header
           in if [] \<in> set header \<or> \<not> distinct header then Inl Unmodelled
              else if data \<noteq> [] \<and> length (hd data) > n then Inl Unmodelled
              else if list_ex (\<lambda>r. length r > n) data then Inl ParserError
              else
                (let padded = map (pad_to n) data
                 in case collect (map (\<lambda>j. infer_kind (map (\<lambda>r. r ! j) padded)) [0..<n]) of
                      Inl e \<Rightarrow> Inl e
                    | Inr kinds \<Rightarrow>
                        Inr \<lparr>columns = header,
                             rows = map (\<lambda>r. map2 convert kinds r) padded\<rparr>)))"

definition read_csv :: "string \<Rightarrow> error + dataframe" where
  "read_csv s = (case tokenize s of Inl e \<Rightarrow> Inl e | Inr recs \<Rightarrow> build_frame recs)"

subsection \<open>Load, save, delete (lines 18 to 31)\<close>

text \<open>The backing file: \<open>None\<close> when it does not exist, else its content.\<close>

type_synonym backing_file = "string option"

definition load_data :: "backing_file \<Rightarrow> error + dataframe" where
  "load_data f = (case f of Some content \<Rightarrow> read_csv content | None \<Rightarrow> Inr empty_table)"

definition float_coerced :: "cell list \<Rightarrow> bool" where
  \<comment> \<open>a column with integers beside missing values and no text: pandas stores it as
      floats\<close>
  "float_coerced cs =
     (list_ex (\<lambda>c. case c of IntV i \<Rightarrow> True | _ \<Rightarrow> False) cs
      \<and> list_ex (\<lambda>c. c = NaN) cs
      \<and> \<not> list_ex (\<lambda>c. case c of StrV t \<Rightarrow> True | _ \<Rightarrow> False) cs)"

definition append_row :: "dataframe \<Rightarrow> (string \<times> cell) list \<Rightarrow> error + dataframe" where
  \<comment> \<open>\<open>pd.concat([df, pd.DataFrame([row])], ignore_index=True)\<close>: the columns of both,
      those of \<open>df\<close> first; a cell with no value is missing. Where that turns a column of
      integers into floats, the result is outside the model.\<close>
  "append_row df row =
     (let extra = filter (\<lambda>k. k \<notin> set (columns df)) (map fst row);
          cols = columns df @ extra;
          out = \<lparr>columns = cols,
                 rows = map (\<lambda>r. r @ replicate (length extra) NaN) (rows df)
                        @ [map (\<lambda>k. case map_of row k of Some v \<Rightarrow> v | None \<Rightarrow> NaN) cols]\<rparr>
      in if list_ex (\<lambda>j. float_coerced (column_cells out j)) [0..<length cols]
         then Inl Unmodelled else Inr out)"

definition save_submission ::
  "csv_writer \<Rightarrow> backing_file \<Rightarrow> (string \<times> cell) list \<Rightarrow> error + backing_file" where
  "save_submission wr f row =
     (case load_data f of
        Inl e \<Rightarrow> Inl e
      | Inr df \<Rightarrow>
          (case append_row df row of
             Inl e \<Rightarrow> Inl e
           | Inr df' \<Rightarrow> Inr (Some (to_csv wr df'))))"

definition os_remove :: "backing_file \<Rightarrow> error + backing_file" where
  \<comment> \<open>\<open>os.remove\<close> raises when there is no file\<close>
  "os_remove f = (case f of None \<Rightarrow> Inl FileNotFoundError | Some content \<Rightarrow> Inr None)"

definition delete_all_submissions :: "backing_file \<Rightarrow> error + backing_file" where
  "delete_all_submissions f = (if f \<noteq> None then os_remove f else Inr f)"

section \<open>The submission pipeline (lines 100 to 135)\<close>

record datetime =
  year :: nat
  month :: nat
  day :: nat
  hour :: nat
  minute :: nat
  second :: nat
  microsecond :: nat

definition zero_pad :: "nat \<Rightarrow> nat \<Rightarrow> string" where
  "zero_pad w n = replicate (w - length (str_nat n)) CHR ''0'' @ str_nat n"

definition isoformat :: "datetime \<Rightarrow> string" where
  "isoformat d =
     zero_pad 4 (year d) @ ''-'' @ zero_pad 2 (month d) @ ''-'' @ zero_pad 2 (day d) @ ''T''
       @ zero_pad 2 (hour d) @ '':'' @ zero_pad 2 (minute d) @ '':'' @ zero_pad 2 (second d)
       @ (if microsecond d = 0 then [] else ''.'' @ zero_pad 6 (microsecond d))"

record world =
  data_file :: backing_file
  sent :: "request list"

datatype outcome =
    Rejected
  | Submitted string string string
  | Crashed error

definition or_else :: "'a option \<Rightarrow> 'a \<Rightarrow> 'a" where
  \<comment> \<open>\<open>if x is None: x = d\<close>\<close>
  "or_else x d = (case x of None \<Rightarrow> d | Some v \<Rightarrow> v)"

definition make_row ::
  "string \<Rightarrow> int \<Rightarrow> string \<Rightarrow> string \<Rightarrow> string \<Rightarrow> string \<Rightarrow> (string \<times> cell) list" where
  "make_row ts rating review ai_resp summary actions =
     [(''timestamp'', StrV ts), (''rating'', IntV rating), (''review'', StrV review),
      (''ai_response'', StrV ai_resp), (''summary'', StrV summary), (''actions'', StrV actions)]"

definition submit ::
  "csv_writer \<Rightarrow> env \<Rightarrow> network \<Rightarrow> datetime \<Rightarrow> int \<Rightarrow> string \<Rightarrow> world \<Rightarrow> outcome \<times> world" where
  "submit wr e net now rating review w =
     (if strip review = [] then (Rejected, w)
      else
        (let (r1, q1) = call_llm_text e net (user_reply_prompt rating review);
             (r2, q2) = call_llm_text e net (summary_prompt review);
             (r3, q3) = call_llm_text e net (actions_prompt review rating);
             ai_resp = or_else r1 (fallback_user_response rating review);
             summary = or_else r2 (fallback_summary review);
             actions = or_else r3 (fallback_actions review rating);
             w1 = w\<lparr>sent := sent w @ q1 @ q2 @ q3\<rparr>
         in case save_submission wr (data_file w)
                   (make_row (isoformat now) rating review ai_resp summary actions) of
              Inl err \<Rightarrow> (Crashed err, w1)
            | Inr f \<Rightarrow> (Submitted ai_resp summary actions, w1\<lparr>data_file := f\<rparr>)))"

subsection \<open>The enrichments of a submission (lines 107 to 117)\<close>






section \<open>The admin dashboard (lines 138 to 177)\<close>

subsection \<open>Columns\<close>

definition column_index :: "dataframe \<Rightarrow> string \<Rightarrow> error + nat" where
  \<comment> \<open>the position of the column \<open>df[k]\<close>; a missing label is a KeyError, and a repeated
      label selects several columns, which is outside the model\<close>
  "column_index df k =
     (if k \<notin> set (columns df) then Inl KeyError
      else if \<not> distinct (columns df) then Inl Unmodelled
      else Inr (length (takeWhile (\<lambda>x. x \<noteq> k) (columns df))))"

definition is_str :: "cell \<Rightarrow> bool" where
  "is_str c = (case c of StrV s \<Rightarrow> True | _ \<Rightarrow> False)"

definition ints_of :: "cell list \<Rightarrow> int list" where
  \<comment> \<open>the numbers of a column; missing values are skipped\<close>
  "ints_of cs = concat (map (\<lambda>c. case c of IntV i \<Rightarrow> [i] | _ \<Rightarrow> []) cs)"

definition df_empty :: "dataframe \<Rightarrow> bool" where
  \<comment> \<open>\<open>df.empty\<close>\<close>
  "df_empty df = (rows df = [] \<or> columns df = [])"

subsection \<open>Analytics (lines 148 to 154)\<close>

text \<open>
  The mean is a 64-bit float in the program. A finite float is a rational, and the model
  computes with the values: \<open>fl\<close> rounds a rational to the nearest number with a mantissa
  of 53 bits, ties to even, which is what one float operation does to its exact result.
  The range of the exponent is not modelled; the numbers here are far inside it.
\<close>

definition round_half_even :: "rat \<Rightarrow> int" where
  \<comment> \<open>\<open>rint\<close>\<close>
  "round_half_even x =
     (let f = \<lfloor>x\<rfloor>; d = x - of_int f
      in if d < 1 / 2 then f
         else if 1 / 2 < d then f + 1
         else if even f then f else f + 1)"

function bits :: "int \<Rightarrow> nat" where
  \<comment> \<open>the number of binary digits\<close>
  "bits n = (if n \<le> 0 then 0 else Suc (bits (n div 2)))"
  by pat_completeness auto
termination
  by (relation "measure nat") auto

declare bits.simps [simp del]

definition pow2 :: "int \<Rightarrow> rat" where
  "pow2 e = (if 0 \<le> e then 2 ^ nat e else 1 / 2 ^ nat (- e))"

definition fl :: "rat \<Rightarrow> rat" where
  "fl x =
     (if x = 0 then 0
      else
        (let a = \<bar>x\<bar>;
             k = int (bits (fst (quotient_of a))) - int (bits (snd (quotient_of a)));
             e = (if pow2 k \<le> a then k - 52 else k - 53)
         in sgn x * of_int (round_half_even (a / pow2 e)) * pow2 e))"

definition round2 :: "rat \<Rightarrow> rat" where
  \<comment> \<open>\<open>round(x, 2)\<close> on a numpy float: scale by 100, round to an integer, scale back\<close>
  "round2 x = fl (of_int (round_half_even (fl (x * 100))) / 100)"

definition float_sum :: "int list \<Rightarrow> rat option" where
  \<comment> \<open>the sum of the numbers as floats. It is exact, whatever the order of the additions,
      while the magnitudes add up to at most \<open>2 ^ 53\<close>; beyond that it depends on the
      order, and only the sum of a single number is modelled.\<close>
  "float_sum vs =
     (if sum_list (map abs vs) \<le> 2 ^ 53 then Some (of_int (sum_list vs))
      else (case vs of [v] \<Rightarrow> Some (fl (of_int v)) | _ \<Rightarrow> None))"

record analytics =
  total :: nat
  avg :: "rat option"
  counts :: "nat list"

definition analytics_of :: "dataframe \<Rightarrow> error + analytics" where
  \<comment> \<open>\<open>avg\<close> is \<open>None\<close> for the NaN of a column without numbers. A rating column that
      holds text has no mean; what pandas then does varies with its version and is
      outside the model.\<close>
  "analytics_of df =
     (case column_index df ''rating'' of
        Inl e \<Rightarrow> Inl e
      | Inr j \<Rightarrow>
          if list_ex is_str (column_cells df j) then Inl Unmodelled
          else
            (let vs = ints_of (column_cells df j);
                 cnt = map (\<lambda>r. count_list vs r) [1, 2, 3, 4, 5]
             in if vs = [] then Inr \<lparr>total = length (rows df), avg = None, counts = cnt\<rparr>
                else
                  (case float_sum vs of
                     None \<Rightarrow> Inl Unmodelled
                   | Some t \<Rightarrow>
                       Inr \<lparr>total = length (rows df),
                            avg = Some (round2 (fl (t / of_nat (length vs)))),
                            counts = cnt\<rparr>)))"

subsection \<open>Searching: \<open>Series.str.contains(q, case=False, na=False)\<close>\<close>

text \<open>
  \<open>str.contains\<close> compiles the query with \<open>re.compile(q, re.IGNORECASE)\<close> and keeps
  the texts in which \<open>search\<close> finds a match. The model covers the patterns made of
  ASCII characters that are not special, the dot, and plain groups; it reports the two
  errors that \<open>re.compile\<close> raises whatever else the pattern holds (unbalanced
  parentheses and an unterminated character set). Every other construct is outside the
  model.
\<close>

datatype atom = Lit char | Dot

fun class_closed :: "bool \<Rightarrow> string \<Rightarrow> bool" where
  \<comment> \<open>after \<open>[\<close>: is there a closing bracket? A bracket that comes first is a member of
      the set, and a backslash takes the next character with it.\<close>
  "class_closed seen [] = False"
| "class_closed seen (c # cs) =
     (if c = CHR '']'' \<and> seen then True
      else if c = CHR 0x5C then (case cs of [] \<Rightarrow> False | x # cs' \<Rightarrow> class_closed True cs')
      else class_closed True cs)"

fun scan :: "nat \<Rightarrow> string \<Rightarrow> error + atom list" where
  \<comment> \<open>the first argument counts the groups that are open\<close>
  "scan d [] = (if d = 0 then Inr [] else Inl ReError)"
| "scan d (c # cs) =
     (if c = CHR ''('' then
        (if cs \<noteq> [] \<and> hd cs = CHR ''?'' then Inl Unmodelled else scan (Suc d) cs)
      else if c = CHR '')'' then
        (if d = 0 then Inl ReError else scan (d - 1) cs)
      else if c = CHR ''['' then
        (if class_closed False (if cs \<noteq> [] \<and> hd cs = CHR ''^'' then tl cs else cs)
         then Inl Unmodelled else Inl ReError)
      else if c \<in> set ''*+?{}|^$]'' \<or> c = CHR 0x5C \<or> 128 \<le> (of_char c :: nat) then Inl Unmodelled
      else
        (case scan d cs of
           Inl e \<Rightarrow> Inl e
         | Inr as \<Rightarrow> Inr ((if c = CHR ''.'' then Dot else Lit c) # as)))"

definition re_compile :: "string \<Rightarrow> error + atom list" where
  "re_compile q = scan 0 q"

definition atom_matches :: "atom \<Rightarrow> char \<Rightarrow> bool" where
  \<comment> \<open>ignoring case; the dot matches everything but a newline\<close>
  "atom_matches a c =
     (case a of Lit p \<Rightarrow> lower_ascii p = lower_ascii c | Dot \<Rightarrow> c \<noteq> CHR 0x0A)"

fun match_here :: "atom list \<Rightarrow> string \<Rightarrow> bool" where
  "match_here [] s = True"
| "match_here (a # as) [] = False"
| "match_here (a # as) (c # cs) = (atom_matches a c \<and> match_here as cs)"

fun search :: "atom list \<Rightarrow> string \<Rightarrow> bool" where
  "search as [] = match_here as []"
| "search as (c # cs) = (match_here as (c # cs) \<or> search as cs)"

definition contains :: "atom list \<Rightarrow> cell \<Rightarrow> bool" where
  \<comment> \<open>a cell that is not text gives \<open>na=False\<close>\<close>
  "contains pat c = (case c of StrV s \<Rightarrow> search pat s | _ \<Rightarrow> False)"

subsection \<open>Filter and export (lines 162 to 170)\<close>

definition isin :: "int list \<Rightarrow> cell \<Rightarrow> bool" where
  "isin sel c = (case c of IntV i \<Rightarrow> i \<in> set sel | _ \<Rightarrow> False)"

definition admin_filter :: "dataframe \<Rightarrow> int list \<Rightarrow> string \<Rightarrow> error + dataframe" where
  \<comment> \<open>the \<open>.str\<close> accessor raises unless the review column of the table holds text;
      whether a pattern that does not compile raises when no row is left to search
      depends on the version of pandas\<close>
  "admin_filter df sel q =
     (case column_index df ''rating'' of
        Inl e \<Rightarrow> Inl e
      | Inr j \<Rightarrow>
          (let filtered = df\<lparr>rows := filter (\<lambda>r. isin sel (cell_at r j)) (rows df)\<rparr>
           in if strip q = [] then Inr filtered
              else
                (case column_index df ''review'' of
                   Inl e \<Rightarrow> Inl e
                 | Inr k \<Rightarrow>
                     if \<not> list_ex is_str (column_cells df k) then Inl AttributeError
                     else
                       (case re_compile q of
                          Inl e \<Rightarrow> if rows filtered = [] then Inl Unmodelled else Inl e
                        | Inr pat \<Rightarrow>
                            Inr (filtered\<lparr>rows :=
                                   filter (\<lambda>r. contains pat (cell_at r k)) (rows filtered)\<rparr>)))))"

datatype view =
    NoSubmissions
  | Dashboard analytics dataframe string

definition admin_dashboard :: "csv_writer \<Rightarrow> backing_file \<Rightarrow> int list \<Rightarrow> string \<Rightarrow> error + view" where
  \<comment> \<open>the analytics, the filtered table and the bytes offered for download\<close>
  "admin_dashboard wr f sel q =
     (case load_data f of
        Inl e \<Rightarrow> Inl e
      | Inr df \<Rightarrow>
          if df_empty df then Inr NoSubmissions
          else
            (case analytics_of df of
               Inl e \<Rightarrow> Inl e
             | Inr a \<Rightarrow>
                 (case admin_filter df sel q of
                    Inl e \<Rightarrow> Inl e
                  | Inr flt \<Rightarrow> Inr (Dashboard a flt (to_csv wr flt)))))"

section \<open>Vocabulary of the properties\<close>

subsection \<open>Records, failures and the search as the specification words it\<close>





definition icontains :: "string \<Rightarrow> string \<Rightarrow> bool" where
  \<comment> \<open>\<open>s\<close> contains \<open>q\<close> as a substring, ignoring case\<close>
  "icontains q s =
     list_ex (\<lambda>i. map lower_ascii (take (length q) (drop i s)) = map lower_ascii q)
       [0..<Suc (length s)]"

subsection \<open>Tables that the export preserves\<close>

definition plain :: "char \<Rightarrow> bool" where
  \<comment> \<open>a character that neither ends a field nor a line\<close>
  "plain c = (c \<noteq> CHR '','' \<and> c \<noteq> CHR 0x0A)"

definition LX :: "lex_state \<Rightarrow> string \<Rightarrow> string list \<Rightarrow> string list list \<Rightarrow> lexer" where
  \<comment> \<open>the tokenizer in a given state, with its field, record and finished lines\<close>
  "LX s f r d = \<lparr>st = s, fld = f, rec = r, done_lines = d\<rparr>"

definition lexable :: "string list \<Rightarrow> bool" where
  \<comment> \<open>a record that the tokenizer reads back: it has a field, and it is not a single
      field of blanks, which would read as a blank line\<close>
  "lexable r = (r \<noteq> [] \<and> \<not> (length r = 1 \<and> hd r \<noteq> [] \<and> list_all is_blank (hd r)))"

definition is_int64 :: "cell \<Rightarrow> bool" where
  "is_int64 c = (case c of IntV i \<Rightarrow> - (2 ^ 63) \<le> i \<and> i < 2 ^ 63 | _ \<Rightarrow> False)"

definition text_or_missing :: "cell \<Rightarrow> bool" where
  "text_or_missing c = (case c of NaN \<Rightarrow> True | IntV i \<Rightarrow> False | StrV s \<Rightarrow> \<not> is_na s)"

definition stable_column :: "cell list \<Rightarrow> bool" where
  \<comment> \<open>a column that \<open>read_csv\<close> types as it is: all missing, or all 64-bit integers, or
      texts and missing values with a text that is no number and a text that is no boolean;
      no text is one of the markers of a missing value\<close>
  "stable_column cs =
     (list_all (\<lambda>c. c = NaN) cs
      \<or> list_all is_int64 cs
      \<or> (list_all text_or_missing cs
          \<and> list_ex (\<lambda>c. case c of StrV s \<Rightarrow> \<not> float_text s | _ \<Rightarrow> False) cs
          \<and> list_ex (\<lambda>c. case c of StrV s \<Rightarrow> \<not> is_bool_word s | _ \<Rightarrow> False) cs))"

definition kind_of :: "cell list \<Rightarrow> col_kind" where
  "kind_of cs =
     (if list_all (\<lambda>c. c = NaN) cs then AllNaN else if list_all is_int64 cs then Ints else Strs)"

definition stable :: "dataframe \<Rightarrow> bool" where
  \<comment> \<open>a table that \<open>to_csv\<close> and \<open>read_csv\<close> leave as it is\<close>
  "stable df =
     (let cols = columns df; n = length cols
      in [] \<notin> set cols \<and> distinct cols \<and> lexable cols
         \<and> list_all (\<lambda>f. CHR 0x0D \<notin> set f) cols
         \<and> list_all (\<lambda>r. length r = n \<and> lexable (map render_cell r)
                        \<and> list_all (\<lambda>c. CHR 0x0D \<notin> set (render_cell c)) r) (rows df)
         \<and> list_all (\<lambda>j. stable_column (column_cells df j)) [0..<n])"

subsection \<open>Example inputs\<close>





definition header_line :: string where
  "header_line = ''timestamp,rating,review,ai_response,summary,actions''"

definition two_reviews_file :: string where
  "two_reviews_file =
     header_line @ [CHR 0x0A]
       @ ''2024-01-02T03:04:05,5,123,Thanks,ok,act'' @ [CHR 0x0A]
       @ ''2024-01-02T03:04:06,4,abc,Thanks,ok,act'' @ [CHR 0x0A]"

definition row_123 :: "cell list" where
  "row_123 = [StrV ''2024-01-02T03:04:05'', IntV 5, StrV ''123'', StrV ''Thanks'', StrV ''ok'', StrV ''act'']"

definition row_abc :: "cell list" where
  "row_abc = [StrV ''2024-01-02T03:04:06'', IntV 4, StrV ''abc'', StrV ''Thanks'', StrV ''ok'', StrV ''act'']"

definition two_reviews :: dataframe where
  "two_reviews = \<lparr>columns = schema, rows = [row_123, row_abc]\<rparr>"

definition four_ratings_file :: string where
  "four_ratings_file =
     ''rating'' @ [CHR 0x0A] @ ''5'' @ [CHR 0x0A] @ ''5'' @ [CHR 0x0A] @ ''3'' @ [CHR 0x0A]
       @ ''1'' @ [CHR 0x0A]"

definition four_ratings :: dataframe where
  "four_ratings = \<lparr>columns = [''rating''], rows = [[IntV 5], [IntV 5], [IntV 3], [IntV 1]]\<rparr>"

definition three_column_file :: string where
  "three_column_file =
     ''timestamp,rating,review'' @ [CHR 0x0A] @ ''2024-01-02T03:04:05,5,good'' @ [CHR 0x0A]"

definition short_row_file :: string where
  "short_row_file = header_line @ [CHR 0x0A] @ ''2024-01-02T03:04:05,5,good'' @ [CHR 0x0A]"

definition open_quote_file :: string where
  "open_quote_file = ''a,b'' @ [CHR 0x0A] @ [CHR 0x22] @ ''x,y''"



section \<open>Properties\<close>

subsection \<open>Fallback summary\<close>

text \<open>
  Claim C4. The fallback summary is the first 160 characters of the review, followed by
  the ellipsis marker \<open>...\<close> exactly when the review has more than 160 characters: a
  longer review gives 160 characters and the marker, a review of at most 160 characters
  (one of 100, say) comes back unchanged, and a review of 200 characters gives 163.
\<close>

theorem fallback_summary_spec:
  "fallback_summary review =
     take 160 review @ (if length review > 160 then ''...'' else '''')
   \<and> (length review > 160 \<longrightarrow>
        fallback_summary review = take 160 review @ ''...''
        \<and> length (take 160 review) = 160)
   \<and> (length review \<le> 160 \<longrightarrow> fallback_summary review = review)
   \<and> (length review = 200 \<longrightarrow> length (fallback_summary review) = 163)
   \<and> (length review = 100 \<longrightarrow> fallback_summary review = review)"
  by (simp add: fallback_summary_def)

theorem fallback_summary_spec_witness:
  "length (replicate 200 CHR ''a'') > 160
   \<and> fallback_summary (replicate 200 CHR ''a'') = replicate 160 CHR ''a'' @ ''...''
   \<and> length (replicate 100 CHR ''b'') \<le> 160
   \<and> fallback_summary (replicate 100 CHR ''b'') = replicate 100 CHR ''b''"
  using fallback_summary_spec [of "replicate 200 CHR ''a''"]
    fallback_summary_spec [of "replicate 100 CHR ''b''"]
  by simp

subsection \<open>Validation\<close>

lemma strip_empty_iff: "strip s = [] \<longleftrightarrow> (\<forall>c\<in>set s. is_space c)"
proof
  assume "strip s = []"
  then have d: "\<forall>c\<in>set (dropWhile is_space s). is_space c"
    by (simp add: strip_def dropWhile_eq_Nil_conv)
  have "\<forall>c\<in>set (takeWhile is_space s). is_space c"
    by (auto dest: set_takeWhileD)
  moreover have "set s = set (takeWhile is_space s) \<union> set (dropWhile is_space s)"
    by (metis set_append takeWhile_dropWhile_id)
  ultimately show "\<forall>c\<in>set s. is_space c" using d by blast
next
  assume "\<forall>c\<in>set s. is_space c"
  then show "strip s = []"
    by (auto simp: strip_def dropWhile_eq_Nil_conv dest: set_dropWhileD)
qed

text \<open>
  Claim C2. A review that consists of whitespace only is rejected with the validation
  error: the handler sends no request to any provider and leaves the backing file as it
  was, so the stored table is unchanged.
\<close>

theorem blank_review_rejected:
  assumes "\<forall>c\<in>set review. is_space c"
  shows "submit wr e net now rating review w = (Rejected, w)
    \<and> sent (snd (submit wr e net now rating review w)) = sent w
    \<and> load_data (data_file (snd (submit wr e net now rating review w))) = load_data (data_file w)"
  using assms by (simp add: submit_def strip_empty_iff)

theorem blank_review_rejected_witness:
  "is_space CHR '' '' \<and> is_space (CHR 0x09) \<and> is_space (CHR 0x0A)
   \<and> submit BareCR \<lparr>openai_api_key = Some ''k'', openrouter_api_key = None\<rparr> (\<lambda>r. Raised)
        \<lparr>year = 2024, month = 1, day = 2, hour = 3, minute = 4, second = 5, microsecond = 0\<rparr>
        5 [CHR '' '', CHR 0x09, CHR 0x0A] \<lparr>data_file = None, sent = []\<rparr>
      = (Rejected, \<lparr>data_file = None, sent = []\<rparr>)"
proof -
  have h: "\<forall>c\<in>set [CHR '' '', CHR 0x09, CHR 0x0A]. is_space c"
    by (simp add: is_space_def)
  from blank_review_rejected [OF h] h show ?thesis by simp
qed

subsection \<open>The enrichment client and the submission\<close>





lemma sent_prompt: "r \<in> set (snd (call_llm_text e net p)) \<Longrightarrow> prompt r = p"
  by (auto simp: call_llm_text_def Let_def mk_request_def split: option.splits if_splits)

























subsection \<open>Deleting\<close>

text \<open>
  Claim C8. Deleting all submissions and then loading gives the empty table, and
  deleting is idempotent: with no backing file (so also the second time in a row) it
  changes nothing and raises no error.
\<close>

theorem delete_all_then_load:
  "(\<exists>f'. delete_all_submissions f = Inr f' \<and> load_data f' = Inr empty_table)
   \<and> rows empty_table = []
   \<and> delete_all_submissions None = Inr None
   \<and> (\<exists>f'. delete_all_submissions f = Inr f' \<and> delete_all_submissions f' = Inr f')"
  by (cases f) (simp_all add: delete_all_submissions_def os_remove_def load_data_def empty_table_def)


subsection \<open>The admin filter\<close>

lemma load_two_reviews: "load_data (Some two_reviews_file) = Inr two_reviews"
  by code_simp

text \<open>
  Claim C5 (the code departs from it). The claim keeps a row when its review contains
  the search string as a substring, ignoring case, and the search box is labelled
  ``simple substring''. The code hands the string to \<open>str.contains\<close> as a pattern: the
  query \<open>a.c\<close> keeps the review \<open>abc\<close>, which does not contain it.
\<close>

theorem search_is_a_pattern:
  "load_data (Some two_reviews_file) = Inr two_reviews
   \<and> admin_filter two_reviews [4, 5] ''a.c'' = Inr \<lparr>columns = schema, rows = [row_abc]\<rparr>
   \<and> cell_at row_abc 2 = StrV ''abc''
   \<and> \<not> icontains ''a.c'' ''abc''"
  by code_simp

text \<open>
  Claim C10 (the code departs from it). The query is compiled as a pattern, so the filter
  is not total: on the queries \<open>(\<close> and \<open>[\<close> the compilation raises, and so does the
  dashboard.
\<close>

theorem unbalanced_pattern_raises:
  "load_data (Some two_reviews_file) = Inr two_reviews
   \<and> admin_filter two_reviews [4, 5] ''('' = Inl ReError
   \<and> admin_filter two_reviews [4, 5] ''['' = Inl ReError
   \<and> admin_dashboard BareCR (Some two_reviews_file) [4, 5] ''('' = Inl ReError
   \<and> admin_dashboard QuotesCR (Some two_reviews_file) [4, 5] ''('' = Inl ReError"
  by code_simp

subsection \<open>Analytics\<close>

lemma round_half_even_near: "\<bar>of_int (round_half_even x) - x\<bar> \<le> 1 / 2"
proof -
  have "of_int \<lfloor>x\<rfloor> \<le> x" "x < of_int \<lfloor>x\<rfloor> + 1"
    by linarith+
  then show ?thesis
    by (auto simp: round_half_even_def Let_def)
qed

lemma bits_lower: "0 < n \<Longrightarrow> 2 ^ (bits n - 1) \<le> n"
proof (induction n rule: bits.induct)
  case (1 n)
  show ?case
  proof (cases "n div 2 = 0")
    case True
    with 1(2) show ?thesis
      by (simp add: bits.simps [of n] bits.simps [of 0])
  next
    case False
    with 1(2) have pos: "0 < n div 2" by linarith
    with 1 have ih: "2 ^ (bits (n div 2) - 1) \<le> n div 2" by simp
    from pos have b: "bits (n div 2) = Suc (bits (n div 2) - 1)"
      by (simp add: bits.simps [of "n div 2"])
    have "(2::int) ^ bits (n div 2) = 2 * 2 ^ (bits (n div 2) - 1)"
      by (subst b) simp
    also have "\<dots> \<le> 2 * (n div 2)" using ih by simp
    also have "\<dots> \<le> n" by simp
    finally show ?thesis
      using 1(2) by (simp add: bits.simps [of n])
  qed
qed

lemma bits_upper: "0 \<le> n \<Longrightarrow> n < 2 ^ bits n"
proof (induction n rule: bits.induct)
  case (1 n)
  show ?case
  proof (cases "n \<le> 0")
    case True
    with 1(2) show ?thesis by (simp add: bits.simps [of n])
  next
    case False
    with 1 have ih: "n div 2 < 2 ^ bits (n div 2)" by simp
    then have "n div 2 + 1 \<le> 2 ^ bits (n div 2)" by simp
    then have "2 * (n div 2) + 2 \<le> 2 * 2 ^ bits (n div 2)" by simp
    moreover have "n < 2 * (n div 2) + 2" by linarith
    ultimately show ?thesis
      using False by (simp add: bits.simps [of n])
  qed
qed

lemma pow2_powi: "pow2 e = 2 powi e"
  by (simp add: pow2_def power_int_def inverse_eq_divide power_one_over [symmetric])

lemma pow2_pos: "0 < pow2 e"
  by (simp add: pow2_powi)

lemma pow2_diff: "pow2 (a - b) = pow2 a / pow2 b"
  by (simp add: pow2_powi power_int_diff)

lemma pow2_nat: "pow2 (int n) = 2 ^ n"
  by (simp add: pow2_def)

lemma scale_ge: "1 \<le> r \<Longrightarrow> 0 < c \<Longrightarrow> c \<le> r * (c::rat)"
  by (metis mult_le_cancel_right_pos mult_1)

lemma fl_mantissa:
  assumes "0 < a"
  defines "k \<equiv> int (bits (fst (quotient_of a))) - int (bits (snd (quotient_of a)))"
  defines "e \<equiv> (if pow2 k \<le> a then k - 52 else k - 53)"
  shows "2 ^ 52 \<le> a / pow2 e"
proof (cases "pow2 k \<le> a")
  case True
  then have "1 \<le> a / pow2 k"
    using pow2_pos [of k] by (simp add: field_simps)
  then have "pow2 52 \<le> a / pow2 k * pow2 52"
    using pow2_pos [of 52] by (rule scale_ge)
  moreover have "a / pow2 e = a / pow2 k * pow2 52"
    using True by (simp add: e_def pow2_diff)
  ultimately have "pow2 52 \<le> a / pow2 e" by simp
  then show ?thesis
    using pow2_nat [of 52] by simp
next
  case False
  obtain p q where pq: "quotient_of a = (p, q)" by (cases "quotient_of a")
  then have q: "0 < q" and a: "a = of_int p / of_int q"
    by (simp_all add: quotient_of_denom_pos quotient_of_div)
  with assms(1) have p: "0 < p"
    by (simp add: zero_less_divide_iff)
  have lo: "(2::rat) ^ (bits p - 1) \<le> of_int p"
    using bits_lower [OF p] by (metis of_int_le_iff of_int_numeral of_int_power)
  have hi: "of_int q < (2::rat) ^ bits q"
    using bits_upper [of q] q by (metis less_imp_le of_int_less_iff of_int_numeral of_int_power)
  have bp: "0 < bits p"
    using p by (simp add: bits.simps [of p])
  have "pow2 (k - 1) = 2 ^ (bits p - 1) / 2 ^ bits q"
  proof -
    have "k - 1 = int (bits p - 1) - int (bits q)"
      using bp by (simp add: k_def pq)
    then show ?thesis
      by (simp only: pow2_diff pow2_nat)
  qed
  also have "\<dots> \<le> of_int p / 2 ^ bits q"
    using lo by (simp add: divide_right_mono)
  also have "\<dots> \<le> of_int p / of_int q"
    using hi q p by (simp add: frac_le)
  finally have "pow2 (k - 1) \<le> a"
    by (simp add: a)
  then have "1 \<le> a / pow2 (k - 1)"
    using pow2_pos [of "k - 1"] by (simp add: field_simps)
  then have "pow2 52 \<le> a / pow2 (k - 1) * pow2 52"
    using pow2_pos [of 52] by (rule scale_ge)
  moreover have "k - 53 = k - 1 - 52" by simp
  then have "pow2 (k - 53) = pow2 (k - 1) / pow2 52"
    by (simp only: pow2_diff)
  then have "a / pow2 e = a / pow2 (k - 1) * pow2 52"
    using False by (simp add: e_def)
  ultimately have "pow2 52 \<le> a / pow2 e" by simp
  then show ?thesis
    using pow2_nat [of 52] by simp
qed

lemma fl_error: "\<bar>fl x - x\<bar> \<le> \<bar>x\<bar> / 2 ^ 53"
proof (cases "x = 0")
  case True
  then show ?thesis by (simp add: fl_def)
next
  case False
  define a where "a = \<bar>x\<bar>"
  define k where "k = int (bits (fst (quotient_of a))) - int (bits (snd (quotient_of a)))"
  define e where "e = (if pow2 k \<le> a then k - 52 else k - 53)"
  define m where "m = a / pow2 e"
  have apos: "0 < a" using False by (simp add: a_def)
  have m52: "2 ^ 52 \<le> m"
    unfolding m_def e_def k_def by (rule fl_mantissa [OF apos])
  have flx: "fl x = sgn x * of_int (round_half_even m) * pow2 e"
    using False by (simp add: fl_def Let_def a_def k_def e_def m_def)
  have x: "x = sgn x * m * pow2 e"
    using pow2_pos [of e] by (simp add: m_def a_def mult_sgn_abs)
  have "fl x - x = sgn x * (of_int (round_half_even m) - m) * pow2 e"
    by (subst flx, subst (2) x) (simp add: algebra_simps)
  then have "\<bar>fl x - x\<bar> = \<bar>of_int (round_half_even m) - m\<bar> * pow2 e"
    using False pow2_pos [of e] by (simp add: abs_mult abs_sgn_eq)
  also have "\<dots> \<le> 1 / 2 * pow2 e"
    using round_half_even_near [of m] pow2_pos [of e] by (simp add: mult_right_mono)
  also have "\<dots> \<le> m / 2 ^ 53 * pow2 e"
    using m52 pow2_pos [of e] by (simp add: mult_right_mono)
  also have "\<dots> = a / 2 ^ 53"
    using pow2_pos [of e] by (simp add: m_def)
  finally show ?thesis by (simp add: a_def)
qed

lemma round2_near:
  "\<exists>k. round2 x = fl (of_int k / 100)
     \<and> \<bar>of_int k - 100 * x\<bar> \<le> 1 / 2 + 100 * \<bar>x\<bar> / 2 ^ 53
     \<and> \<bar>round2 x - of_int k / 100\<bar> \<le> \<bar>of_int k / 100\<bar> / 2 ^ 53"
proof -
  define y where "y = fl (x * 100)"
  define k where "k = round_half_even y"
  have "\<bar>y - x * 100\<bar> \<le> \<bar>x * 100\<bar> / 2 ^ 53"
    unfolding y_def by (rule fl_error)
  then have 1: "\<bar>y - 100 * x\<bar> \<le> 100 * \<bar>x\<bar> / 2 ^ 53"
    by (simp add: abs_mult mult.commute)
  have 2: "\<bar>of_int k - y\<bar> \<le> 1 / 2"
    unfolding k_def by (rule round_half_even_near)
  have "\<bar>of_int k - 100 * x\<bar> \<le> \<bar>of_int k - y\<bar> + \<bar>y - 100 * x\<bar>"
    by simp
  with 1 2 have "\<bar>of_int k - 100 * x\<bar> \<le> 1 / 2 + 100 * \<bar>x\<bar> / 2 ^ 53"
    by linarith
  moreover have "round2 x = fl (of_int k / 100)"
    by (simp add: round2_def k_def y_def)
  moreover have "\<bar>fl (of_int k / 100) - of_int k / 100\<bar> \<le> \<bar>of_int k / 100\<bar> / 2 ^ 53"
    by (rule fl_error)
  ultimately show ?thesis by metis
qed

lemma mean_near:
  "\<exists>k. round2 (fl m) = fl (of_int k / 100)
     \<and> \<bar>of_int k - 100 * m\<bar> \<le> 1 / 2 + 300 * \<bar>m\<bar> / 2 ^ 53
     \<and> \<bar>round2 (fl m) - of_int k / 100\<bar> \<le> \<bar>of_int k / 100\<bar> / 2 ^ 53"
proof -
  define d :: rat where "d = 1 / 2 ^ 53"
  have d: "0 \<le> d" "d \<le> 1" by (simp_all add: d_def)
  obtain k where k: "round2 (fl m) = fl (of_int k / 100)"
    "\<bar>of_int k - 100 * fl m\<bar> \<le> 1 / 2 + 100 * \<bar>fl m\<bar> / 2 ^ 53"
    "\<bar>round2 (fl m) - of_int k / 100\<bar> \<le> \<bar>of_int k / 100\<bar> / 2 ^ 53"
    using round2_near [of "fl m"] by blast
  have e: "\<bar>fl m - m\<bar> \<le> \<bar>m\<bar> * d"
    using fl_error [of m] by (simp add: d_def)
  have "\<bar>m\<bar> * d \<le> \<bar>m\<bar> * 1"
    using d by (intro mult_left_mono) simp_all
  with e have "\<bar>fl m\<bar> \<le> 2 * \<bar>m\<bar>" by simp
  then have "\<bar>fl m\<bar> * d \<le> 2 * \<bar>m\<bar> * d"
    using d by (intro mult_right_mono) simp_all
  moreover have "\<bar>of_int k - 100 * fl m\<bar> \<le> 1 / 2 + 100 * (\<bar>fl m\<bar> * d)"
    using k(2) by (simp add: d_def)
  moreover have "\<bar>of_int k - 100 * m\<bar> \<le> \<bar>of_int k - 100 * fl m\<bar> + 100 * \<bar>fl m - m\<bar>"
    by (simp add: abs_if split: if_splits)
  ultimately have "\<bar>of_int k - 100 * m\<bar> \<le> 1 / 2 + 300 * (\<bar>m\<bar> * d)"
    using e by linarith
  then have "\<bar>of_int k - 100 * m\<bar> \<le> 1 / 2 + 300 * \<bar>m\<bar> / 2 ^ 53"
    by (simp add: d_def)
  with k(1,3) show ?thesis by blast
qed

lemma ints_of_Nil_iff: "ints_of cs = [] \<longleftrightarrow> \<not> list_ex (\<lambda>c. case c of IntV i \<Rightarrow> True | _ \<Rightarrow> False) cs"
  by (induction cs) (auto simp: ints_of_def split: cell.splits)

text \<open>
  Claim C6, as amended. For every table whose rating column holds whole numbers,
  at least one, beside missing values and no text, with magnitudes that add up to at most
  \<open>2 ^ 53\<close>, the analytics are the number of rows, the mean of the numbers rounded to two
  decimals in floating point, and, for each of the ratings 1 to 5, the number of rows
  with that rating, which is 0 for a rating that does not occur. The rounded mean is the
  float nearest to \<open>k / 100\<close> for a whole number \<open>k\<close> that is a nearest whole number to a
  hundred times the mean, up to the rounding error of the float operations; a mean half
  way between two hundredths goes either way. The dashboard shows these analytics
  whenever the table is the one loaded and the filter succeeds. Over the ratings
  5, 5, 3, 1 the counts are 1, 0, 1, 0, 2 and the mean is 3.5.
\<close>

theorem analytics_spec:
  assumes "column_index df ''rating'' = Inr j"
    and "\<not> list_ex is_str (column_cells df j)"
    and "ints_of (column_cells df j) = rs"
    and "rs \<noteq> []"
    and "sum_list (map abs rs) \<le> 2 ^ 53"
  shows "analytics_of df =
           Inr \<lparr>total = length (rows df),
                avg = Some (round2 (fl (of_int (sum_list rs) / of_nat (length rs)))),
                counts = [count_list rs 1, count_list rs 2, count_list rs 3,
                          count_list rs 4, count_list rs 5]\<rparr>
       \<and> (\<exists>k. round2 (fl (of_int (sum_list rs) / of_nat (length rs))) = fl (of_int k / 100)
             \<and> \<bar>of_int k - 100 * (of_int (sum_list rs) / of_nat (length rs))\<bar>
                  \<le> 1 / 2 + 300 * \<bar>of_int (sum_list rs) / of_nat (length rs) :: rat\<bar> / 2 ^ 53
             \<and> \<bar>round2 (fl (of_int (sum_list rs) / of_nat (length rs))) - of_int k / 100\<bar>
                  \<le> \<bar>of_int k / 100\<bar> / 2 ^ 53)
       \<and> length rs \<le> length (rows df)
       \<and> (\<forall>r. count_list rs r = length (filter (\<lambda>x. x = r) rs))
       \<and> (\<forall>r. r \<notin> set rs \<longrightarrow> count_list rs r = 0)
       \<and> (\<forall>f sel q flt. load_data f = Inr df \<and> admin_filter df sel q = Inr flt \<longrightarrow>
             admin_dashboard wr f sel q =
               Inr (Dashboard
                 \<lparr>total = length (rows df),
                  avg = Some (round2 (fl (of_int (sum_list rs) / of_nat (length rs)))),
                  counts = [count_list rs 1, count_list rs 2, count_list rs 3,
                            count_list rs 4, count_list rs 5]\<rparr>
                 flt (to_csv wr flt)))"
proof -
  let ?A = "\<lparr>total = length (rows df),
                avg = Some (round2 (fl (of_int (sum_list rs) / of_nat (length rs)))),
                counts = [count_list rs 1, count_list rs 2, count_list rs 3,
                          count_list rs 4, count_list rs 5]\<rparr>"
  have fs: "float_sum rs = Some (of_int (sum_list rs))"
    using assms(5) by (simp add: float_sum_def)
  have a: "analytics_of df = Inr ?A"
    using assms(1-4) fs by (simp add: analytics_of_def Let_def)
  have "length (ints_of cs) \<le> length cs" for cs
    by (induction cs) (auto simp: ints_of_def split: cell.splits)
  from this [of "column_cells df j"] have len: "length rs \<le> length (rows df)"
    unfolding assms(3) by (simp add: column_cells_def)
  with assms(4) have "rows df \<noteq> []" by auto
  moreover have "columns df \<noteq> []"
    using assms(1) by (auto simp: column_index_def split: if_splits)
  ultimately have "\<not> df_empty df"
    by (simp add: df_empty_def)
  with a have
    "\<forall>f sel q flt. load_data f = Inr df \<and> admin_filter df sel q = Inr flt \<longrightarrow>
       admin_dashboard wr f sel q = Inr (Dashboard ?A flt (to_csv wr flt))"
    by (simp add: admin_dashboard_def)
  moreover have "\<forall>r. count_list rs r = length (filter (\<lambda>x. x = r) rs)"
    by (auto simp: count_list_eq_length_filter intro: arg_cong [where f = length] filter_cong)
  moreover have "\<forall>r. r \<notin> set rs \<longrightarrow> count_list rs r = 0"
    by simp
  ultimately show ?thesis
    using a len mean_near [of "of_int (sum_list rs) / of_nat (length rs)"] by blast
qed

lemma load_four_ratings: "load_data (Some four_ratings_file) = Inr four_ratings"
  by code_simp

theorem analytics_spec_witness:
  "column_index four_ratings ''rating'' = Inr 0
   \<and> \<not> list_ex is_str (column_cells four_ratings 0)
   \<and> ints_of (column_cells four_ratings 0) = [5, 5, 3, 1]
   \<and> sum_list (map abs [5, 5, 3, 1 :: int]) \<le> 2 ^ 53
   \<and> load_data (Some four_ratings_file) = Inr four_ratings
   \<and> analytics_of four_ratings = Inr \<lparr>total = 4, avg = Some (7 / 2), counts = [1, 0, 1, 0, 2]\<rparr>"
proof -
  have a: "column_index four_ratings ''rating'' = Inr 0"
    and b: "\<not> list_ex is_str (column_cells four_ratings 0)"
    and c: "ints_of (column_cells four_ratings 0) = [5, 5, 3, 1]"
    by (simp_all add: four_ratings_def column_index_def column_cells_def cell_at_def is_str_def
        ints_of_def)
  have d: "[5, 5, 3, 1 :: int] \<noteq> []" and e: "sum_list (map abs [5, 5, 3, 1 :: int]) \<le> 2 ^ 53"
    by simp_all
  have r: "round2 (fl (7 / 2)) = 7 / 2"
    by code_simp
  have n: "length (rows four_ratings) = 4"
    by (simp add: four_ratings_def)
  from analytics_spec [OF a b c d e, THEN conjunct1]
  show ?thesis
    using a b c e r n load_four_ratings by simp
qed

text \<open>
  The claim as written speaks of every loaded table. The dashboard computes no aggregate
  for an empty one: it reports that there are no submissions. And the mean is rounded as
  a float is, which is no rounding of the mean to two decimals by one rule: of two
  means half way between two hundredths, 49/40 (thirty-one ratings 1 and nine ratings 2)
  is shown as 1.23 and 9/8 (seven ratings 1 and one rating 2) as 1.12. A rating beyond
  \<open>2 ^ 53\<close> is rounded before the mean is taken.
\<close>

theorem no_analytics_counterexample:
  "load_data None = Inr empty_table
   \<and> admin_dashboard BareCR None [1, 2, 3, 4, 5] [] = Inr NoSubmissions
   \<and> analytics_of \<lparr>columns = [''rating''], rows = replicate 31 [IntV 1] @ replicate 9 [IntV 2]\<rparr>
       = Inr \<lparr>total = 40, avg = Some (fl (123 / 100)), counts = [31, 9, 0, 0, 0]\<rparr>
   \<and> analytics_of \<lparr>columns = [''rating''], rows = replicate 7 [IntV 1] @ [[IntV 2]]\<rparr>
       = Inr \<lparr>total = 8, avg = Some (fl (112 / 100)), counts = [7, 1, 0, 0, 0]\<rparr>
   \<and> analytics_of \<lparr>columns = [''rating''], rows = [[IntV (2 ^ 53 + 1)]]\<rparr>
       = Inr \<lparr>total = 1, avg = Some (2 ^ 53), counts = [0, 0, 0, 0, 0]\<rparr>"
proof -
  have "admin_dashboard BareCR None [1, 2, 3, 4, 5] [] = Inr NoSubmissions"
    by (simp add: admin_dashboard_def load_data_def df_empty_def empty_table_def)
  moreover have "analytics_of
      \<lparr>columns = [''rating''], rows = replicate 31 [IntV 1] @ replicate 9 [IntV 2]\<rparr>
       = Inr \<lparr>total = 40, avg = Some (fl (123 / 100)), counts = [31, 9, 0, 0, 0]\<rparr>"
    by code_simp
  moreover have "analytics_of \<lparr>columns = [''rating''], rows = replicate 7 [IntV 1] @ [[IntV 2]]\<rparr>
       = Inr \<lparr>total = 8, avg = Some (fl (112 / 100)), counts = [7, 1, 0, 0, 0]\<rparr>"
    by code_simp
  moreover have "analytics_of \<lparr>columns = [''rating''], rows = [[IntV (2 ^ 53 + 1)]]\<rparr>
       = Inr \<lparr>total = 1, avg = Some (2 ^ 53), counts = [0, 0, 0, 0, 0]\<rparr>"
    by code_simp
  ultimately show ?thesis
    by (simp add: load_data_def)
qed

(*END*)

end
